theory Spec2Isabelle
  imports Complex_Main "HOL-Library.Signed_Division"
begin

section \<open>The platformer: state manager and gameplay update\<close>

text \<open>
  A shallow embedding of the script of the page component: the class \<open>StateManager\<close>
  and the class \<open>GameplayState\<close> (constructor, key handlers, resize handler,
  \<open>update\<close>), together with \<open>Sprite.update\<close> of the sprite library.

  Conventions of the embedding.
  \<^item> A JavaScript \<open>number\<close> is a binary64 floating-point number. The code is
    embedded twice. In the first form a number is an exact \<^typ>\<open>real\<close> and the arithmetic
    does not round. In the second form (the functions whose names end in \<open>D\<close>) every
    arithmetic operation of the source is followed by \<open>double\<close>, the rounding to the
    nearest binary64 number. Infinities, NaN and the sign of zero are in neither form.
  \<^item> Objects are records, mutation is explicit state passing.
  \<^item> \<open>KeysObject\<close> is a map from key codes to booleans; a key code that was never
    pressed is absent (\<open>undefined\<close> in the source, which is falsy).
  \<^item> An observer callback is a closure over the rest of the program's heap. That
    heap is a value of an arbitrary type \<open>'w\<close>, and a callback is a function from
    the new state and the heap to the heap. The fields of the state manager itself
    are not part of \<open>'w\<close>: a callback of the model does not call back into the
    manager it is registered with.
  \<^item> Rendering (drawing on the canvas) and the click handlers of the menu and pause
    screens are not modelled.
\<close>

subsection \<open>StateManager\<close>

datatype GameState = MENU | GAMEPLAY | PAUSE

record 'w StateManager =
  currentState :: GameState
  onStateChange :: "(GameState \<Rightarrow> 'w \<Rightarrow> 'w) option"

text \<open>The field initialisers of the class: \<open>currentState = 'MENU'\<close>, no callback.\<close>

definition StateManager_new :: "'w StateManager" where
  "StateManager_new = \<lparr>currentState = MENU, onStateChange = None\<rparr>"

definition getCurrentState :: "'w StateManager \<Rightarrow> GameState" where
  "getCurrentState m = currentState m"

text \<open>
  \<open>setState\<close> is declared \<open>async\<close> but its body has no \<open>await\<close>: both statements run
  before the call returns. The result is the manager and the heap after the call.
\<close>

definition setState :: "GameState \<Rightarrow> 'w StateManager \<Rightarrow> 'w \<Rightarrow> 'w StateManager \<times> 'w" where
  "setState newState m w =
     (let m' = m\<lparr>currentState := newState\<rparr>
      in case onStateChange m' of
           Some callback \<Rightarrow> (m', callback newState w)
         | None \<Rightarrow> (m', w))"

definition onStateChanged :: "(GameState \<Rightarrow> 'w \<Rightarrow> 'w) \<Rightarrow> 'w StateManager \<Rightarrow> 'w StateManager" where
  "onStateChanged callback m = m\<lparr>onStateChange := Some callback\<rparr>"

text \<open>A client's calls on a manager, and a sequence of them run from left to right.\<close>

datatype 'w managerCall = SetState GameState | OnStateChanged "GameState \<Rightarrow> 'w \<Rightarrow> 'w"

fun call :: "'w managerCall \<Rightarrow> 'w StateManager \<times> 'w \<Rightarrow> 'w StateManager \<times> 'w" where
  "call (SetState n) (m, w) = setState n m w"
| "call (OnStateChanged f) (m, w) = (onStateChanged f m, w)"

fun calls :: "'w managerCall list \<Rightarrow> 'w StateManager \<times> 'w \<Rightarrow> 'w StateManager \<times> 'w" where
  "calls [] mw = mw"
| "calls (c # cs) mw = calls cs (call c mw)"

subsection \<open>Sprite\<close>

text \<open>
  The animation state of a \<open>Sprite\<close> (the image is not modelled). Frame counts are
  integers, times are numbers.
\<close>

record Sprite =
  frameWidth :: real
  frameHeight :: real
  totalFrames :: int
  currentFrame :: int
  animationSpeed :: real
  lastFrameTime :: real

definition Sprite_update :: "real \<Rightarrow> Sprite \<Rightarrow> Sprite" where
  "Sprite_update currentTime sp =
     (if totalFrames sp \<le> 1 then sp
      else if currentTime - lastFrameTime sp \<ge> animationSpeed sp
        then sp\<lparr>currentFrame := (currentFrame sp + 1) smod totalFrames sp,
                lastFrameTime := currentTime\<rparr>
        else sp)"

subsection \<open>GameplayState: data\<close>

text \<open>
  The object \<open>this.game\<close>. Its fields \<open>width\<close> and \<open>height\<close> are named \<open>gameWidth\<close>
  and \<open>gameHeight\<close> here, since \<open>this.player\<close> has fields of the same names.
\<close>

record Game =
  gameWidth :: real
  gameHeight :: real
  keys :: "string \<rightharpoonup> bool"
  gravity :: real
  groundY :: real

record Player =
  x :: real
  y :: real
  width :: real
  height :: real
  velocityX :: real
  velocityY :: real
  speed :: real
  jumpPower :: real
  onGround :: bool
  color :: string

text \<open>
  The canvas element, as far as the class uses it: its \<open>width\<close> and \<open>height\<close>
  attributes, whether \<open>getContext('2d')\<close> gives a context, and the \<open>clientWidth\<close> of
  its parent element (\<open>None\<close> when there is no parent).
\<close>

record Canvas =
  canvasWidth :: real
  canvasHeight :: real
  hasContext :: bool
  parentClientWidth :: "nat option"

record 'w GameplayState =
  canvas :: Canvas
  stateManager :: "'w StateManager"
  heap :: 'w
  game :: Game
  player :: Player
  sprites :: "(string \<times> Sprite) list option"

text \<open>\<open>keys[code]\<close> used as a condition: true only when the entry is present and true.\<close>

definition held :: "(string \<rightharpoonup> bool) \<Rightarrow> string \<Rightarrow> bool" where
  "held ks code = (ks code = Some True)"

subsection \<open>GameplayState: key and resize handlers, constructor\<close>

definition keydown :: "string \<Rightarrow> 'w GameplayState \<Rightarrow> 'w GameplayState" where
  "keydown code s = s\<lparr>game := (game s)\<lparr>keys := (keys (game s))(code \<mapsto> True)\<rparr>\<rparr>"

definition keyup :: "string \<Rightarrow> 'w GameplayState \<Rightarrow> 'w GameplayState" where
  "keyup code s = s\<lparr>game := (game s)\<lparr>keys := (keys (game s))(code \<mapsto> False)\<rparr>\<rparr>"

text \<open>
  The \<open>width\<close> and \<open>height\<close> attributes of a canvas element are unsigned integers:
  the value read back after an assignment is the integer part of the value assigned.
\<close>

definition canvasDim :: "real \<Rightarrow> real" where
  "canvasDim v = real_of_int \<lfloor>v\<rfloor>"

text \<open>\<open>container?.clientWidth || 800\<close>: 800 when there is no parent or its width is 0.\<close>

definition containerWidth :: "Canvas \<Rightarrow> real" where
  "containerWidth c =
     (case parentClientWidth c of
        None \<Rightarrow> 800
      | Some n \<Rightarrow> if n = 0 then 800 else real n)"

definition resizeCanvas :: "'w GameplayState \<Rightarrow> 'w GameplayState" where
  "resizeCanvas s =
     (let cw = containerWidth (canvas s);
          aspectRatio = 800 / 400;
          scaleX = cw / 800;
          scaleY = (cw / aspectRatio) / 400;
          c' = (canvas s)\<lparr>canvasWidth := canvasDim cw,
                           canvasHeight := canvasDim (cw / aspectRatio)\<rparr>;
          gY = canvasHeight c' - (40 * scaleY);
          g' = (game s)\<lparr>gameWidth := canvasWidth c',
                         gameHeight := canvasHeight c',
                         groundY := gY,
                         gravity := 0.5 * scaleY\<rparr>;
          p = player s;
          p1 = p\<lparr>width := 24 * scaleX,
                  height := 32 * scaleY,
                  x := x p * scaleX\<rparr>;
          p' = p1\<lparr>y := gY - height p1,
                   speed := 4 * scaleX,
                   jumpPower := 12 * scaleY\<rparr>
      in s\<lparr>canvas := c', game := g', player := p'\<rparr>)"

text \<open>
  The \<open>resize\<close> event of the window: the parent's width has become \<open>cw\<close>, then the
  handler runs.
\<close>

definition resize :: "nat option \<Rightarrow> 'w GameplayState \<Rightarrow> 'w GameplayState" where
  "resize cw s = resizeCanvas (s\<lparr>canvas := (canvas s)\<lparr>parentClientWidth := cw\<rparr>\<rparr>)"


subsection \<open>GameplayState.update\<close>

text \<open>
  The steps of \<open>update\<close> in the order of the source. The physics steps read
  \<open>this.game\<close> and assign fields of \<open>this.player\<close> only, so each is a function from
  the game and the player to the player.
\<close>

definition horizontalMovement :: "Game \<Rightarrow> Player \<Rightarrow> Player" where
  "horizontalMovement g p =
     (if held (keys g) ''KeyA'' then p\<lparr>velocityX := - speed p\<rparr>
      else if held (keys g) ''KeyD'' then p\<lparr>velocityX := speed p\<rparr>
      else p\<lparr>velocityX := velocityX p * 0.8\<rparr>)"

definition jumping :: "Game \<Rightarrow> Player \<Rightarrow> Player" where
  "jumping g p =
     (if held (keys g) ''Space'' \<and> onGround p
      then p\<lparr>velocityY := - jumpPower p, onGround := False\<rparr>
      else p)"

definition applyGravity :: "Game \<Rightarrow> Player \<Rightarrow> Player" where
  "applyGravity g p =
     (if \<not> onGround p then p\<lparr>velocityY := velocityY p + gravity g\<rparr> else p)"

definition updatePosition :: "Player \<Rightarrow> Player" where
  "updatePosition p = p\<lparr>x := x p + velocityX p, y := y p + velocityY p\<rparr>"

definition groundCollision :: "Game \<Rightarrow> Player \<Rightarrow> Player" where
  "groundCollision g p =
     (if y p + height p \<ge> groundY g
      then p\<lparr>y := groundY g - height p, velocityY := 0, onGround := True\<rparr>
      else p)"

definition keepInBounds :: "Game \<Rightarrow> Player \<Rightarrow> Player" where
  "keepInBounds g p =
     (if x p < 0 then p\<lparr>x := 0, velocityX := 0\<rparr>
      else if x p + width p > gameWidth g
        then p\<lparr>x := gameWidth g - width p, velocityX := 0\<rparr>
        else p)"

text \<open>The player after the step \<open>Update position\<close>, before the collision checks.\<close>

definition integrated :: "Game \<Rightarrow> Player \<Rightarrow> Player" where
  "integrated g p = updatePosition (applyGravity g (jumping g (horizontalMovement g p)))"

definition physics :: "Game \<Rightarrow> Player \<Rightarrow> Player" where
  "physics g p = keepInBounds g (groundCollision g (integrated g p))"

definition pauseCheck :: "'w GameplayState \<Rightarrow> 'w GameplayState" where
  "pauseCheck s =
     (if held (keys (game s)) ''Escape''
      then (case setState PAUSE (stateManager s) (heap s) of
              (m', w') \<Rightarrow> s\<lparr>stateManager := m', heap := w'\<rparr>)
      else s)"

text \<open>
  \<open>sprites.forEach(sprite => sprite.update(performance.now()))\<close>: the clock is read
  once for each sprite; \<open>clock i\<close> is the value of the \<open>i\<close>-th reading of the tick.
\<close>

fun forEachSprite :: "(nat \<Rightarrow> real) \<Rightarrow> nat \<Rightarrow> (string \<times> Sprite) list \<Rightarrow> (string \<times> Sprite) list" where
  "forEachSprite clock i [] = []"
| "forEachSprite clock i ((k, sp) # rest) =
     (k, Sprite_update (clock i) sp) # forEachSprite clock (Suc i) rest"

definition updateSprites :: "(nat \<Rightarrow> real) \<Rightarrow> 'w GameplayState \<Rightarrow> 'w GameplayState" where
  "updateSprites clock s =
     (case sprites s of
        None \<Rightarrow> s
      | Some sprs \<Rightarrow> s\<lparr>sprites := Some (forEachSprite clock 0 sprs)\<rparr>)"

definition update :: "(nat \<Rightarrow> real) \<Rightarrow> 'w GameplayState \<Rightarrow> 'w GameplayState" where
  "update clock s =
     updateSprites clock (pauseCheck (s\<lparr>player := physics (game s) (player s)\<rparr>))"

subsection \<open>Runs\<close>

text \<open>
  What can happen to a gameplay object after its construction: a key goes down or
  up, the window is resized, or \<open>update\<close> runs.
\<close>

datatype event = KeyDown string | KeyUp string | Resize "nat option" | Tick "nat \<Rightarrow> real"

fun step :: "event \<Rightarrow> 'w GameplayState \<Rightarrow> 'w GameplayState" where
  "step (KeyDown code) s = keydown code s"
| "step (KeyUp code) s = keyup code s"
| "step (Resize cw) s = resize cw s"
| "step (Tick clock) s = update clock s"

fun run :: "event list \<Rightarrow> 'w GameplayState \<Rightarrow> 'w GameplayState" where
  "run [] s = s"
| "run (e # es) s = run es (step e s)"

subsection \<open>Predicates on states\<close>



text \<open>The fields that only the constructor and the resize handler assign.\<close>

definition tunables :: "'w GameplayState \<Rightarrow> real \<times> real \<times> real \<times> real \<times> real \<times> real \<times> real \<times> real" where
  "tunables s =
     (width (player s), height (player s), speed (player s), jumpPower (player s),
      gravity (game s), groundY (game s), gameWidth (game s), gameHeight (game s))"

subsection \<open>Scenarios\<close>

text \<open>
  The loop of the falling scenario of the specification: \<open>update\<close> is called until
  \<open>onGround\<close> is true, and the calls are counted. The loop need not end, so its
  result is an option.
\<close>

partial_function (option) ticksUntilGround ::
  "(nat \<Rightarrow> real) \<Rightarrow> nat \<Rightarrow> 'w GameplayState \<Rightarrow> (nat \<times> 'w GameplayState) option" where
  "ticksUntilGround clock n s =
     (if onGround (player s) then Some (n, s)
      else ticksUntilGround clock (Suc n) (update clock s))"

text \<open>
  The height the specification computes for the falling player after \<open>n\<close> ticks:
  \<open>100 + 0.5*1 + 0.5*2 + ... + 0.5*n\<close>.
\<close>

definition spec_fall_y :: "nat \<Rightarrow> real" where
  "spec_fall_y n = 100 + (\<Sum>k = 1..n. 0.5 * real k)"

text \<open>A clock that stands still, for ticks whose time does not matter.\<close>

definition frozenClock :: "nat \<Rightarrow> real" where
  "frozenClock i = 0"

text \<open>
  Concrete states. \<open>demoCanvas\<close> is a new canvas element (300 by 150) in a parent
  800 wide; \<open>fresh\<close> is the gameplay object the constructor makes on it, and
  \<open>standing\<close> the state one tick later, when the player has landed.
\<close>

definition demoCanvas :: Canvas where
  "demoCanvas = \<lparr>canvasWidth = 300, canvasHeight = 150, hasContext = True,
                  parentClientWidth = Some 800\<rparr>"

definition fresh :: "unit GameplayState" where
  "fresh =
     \<lparr>canvas = \<lparr>canvasWidth = 800, canvasHeight = 400, hasContext = True,
                parentClientWidth = Some 800\<rparr>,
      stateManager = StateManager_new, heap = (),
      game = \<lparr>gameWidth = 800, gameHeight = 400, keys = Map.empty, gravity = 0.5,
              groundY = 360\<rparr>,
      player = \<lparr>x = 100, y = 328, width = 24, height = 32, velocityX = 0,
                velocityY = 0, speed = 4, jumpPower = 12, onGround = False,
                color = ''#FF6B6B''\<rparr>,
      sprites = None\<rparr>"

definition standing :: "unit GameplayState" where
  "standing = fresh\<lparr>player := (player fresh)\<lparr>onGround := True\<rparr>\<rparr>"



text \<open>The start of the falling scenario: the player of \<open>fresh\<close> lifted to \<open>y = 100\<close>.\<close>

definition dropStart :: "unit GameplayState" where
  "dropStart = fresh\<lparr>player := (player fresh)\<lparr>y := 100\<rparr>\<rparr>"

text \<open>
  A player coasting to the left near the left edge: the state of \<open>standing\<close> after
  the key \<open>KeyA\<close> was held for 24 ticks and released for one.
\<close>

definition coasting :: "unit GameplayState" where
  "coasting =
     standing\<lparr>game := (game standing)\<lparr>keys := [''KeyA'' \<mapsto> False]\<rparr>,
              player := (player standing)\<lparr>x := 0.8, velocityX := - 3.2\<rparr>\<rparr>"

text \<open>\<open>coasting\<close> one tick after the key was released, before it comes near the edge.\<close>

definition released :: "unit GameplayState" where
  "released = coasting\<lparr>player := (player coasting)\<lparr>x := 96, velocityX := - 4\<rparr>\<rparr>"

text \<open>\<open>standing\<close> with the gameplay screen active, and then with the Escape key down.\<close>

definition playing :: "unit GameplayState" where
  "playing = standing\<lparr>stateManager := (stateManager standing)\<lparr>currentState := GAMEPLAY\<rparr>\<rparr>"

definition escapePressed :: "unit GameplayState" where
  "escapePressed = keydown ''Escape'' playing"




subsection \<open>Binary64 arithmetic\<close>

text \<open>
  Rounding a real to the nearest integer, a tie going to the even one.
\<close>

definition roundEven :: "real \<Rightarrow> int" where
  "roundEven v =
     (let f = \<lfloor>v\<rfloor>
      in if v - of_int f < 1 / 2 then f
         else if 1 / 2 < v - of_int f then f + 1
         else if even f then f else f + 1)"

text \<open>
  The binade of a number \<open>r \<noteq> 0\<close>: the exponent \<open>e\<close> with \<open>2^e \<le> |r| < 2^(e+1)\<close>, and
  \<open>- 1022\<close> for the numbers below \<open>2^(- 1022)\<close>, where the binary64 numbers are
  subnormal and evenly spaced.
\<close>

definition binade :: "real \<Rightarrow> int" where
  "binade r = max \<lfloor>log 2 \<bar>r\<bar>\<rfloor> (- 1022)"

text \<open>
  The binary64 number nearest to \<open>r\<close> (round to nearest, ties to even): a multiple of
  \<open>2^(e - 52)\<close>, where \<open>e\<close> is the binade of \<open>r\<close>. This is the result of a JavaScript
  operation whose exact result is \<open>r\<close>, as long as \<open>r\<close> is within the range of the finite
  binary64 numbers; beyond it JavaScript gives \<open>Infinity\<close>, and \<open>double\<close> does not.
\<close>

definition double :: "real \<Rightarrow> real" where
  "double r =
     (if r = 0 then 0
      else of_int (roundEven (r / 2 powi (binade r - 52))) * 2 powi (binade r - 52))"

subsection \<open>GameplayState on binary64 numbers\<close>

text \<open>
  The handlers, the constructor and \<open>update\<close> once more, with the result of every
  arithmetic operation of the source rounded by \<open>double\<close>. Negation is exact, and so are
  the literals of the source other than \<open>0.8\<close>. The container width is an integer below
  \<open>2^32\<close> in a browser and needs no rounding. \<open>keydown\<close>, \<open>keyup\<close>, \<open>jumping\<close> and
  \<open>pauseCheck\<close> do no arithmetic and are used as they are.
\<close>

definition resizeCanvasD :: "'w GameplayState \<Rightarrow> 'w GameplayState" where
  "resizeCanvasD s =
     (let cw = containerWidth (canvas s);
          aspectRatio = double (800 / 400);
          scaleX = double (cw / 800);
          scaleY = double (double (cw / aspectRatio) / 400);
          c' = (canvas s)\<lparr>canvasWidth := canvasDim cw,
                           canvasHeight := canvasDim (double (cw / aspectRatio))\<rparr>;
          gY = double (canvasHeight c' - double (40 * scaleY));
          g' = (game s)\<lparr>gameWidth := canvasWidth c',
                         gameHeight := canvasHeight c',
                         groundY := gY,
                         gravity := double (0.5 * scaleY)\<rparr>;
          p = player s;
          p1 = p\<lparr>width := double (24 * scaleX),
                  height := double (32 * scaleY),
                  x := double (x p * scaleX)\<rparr>;
          p' = p1\<lparr>y := double (gY - height p1),
                   speed := double (4 * scaleX),
                   jumpPower := double (12 * scaleY)\<rparr>
      in s\<lparr>canvas := c', game := g', player := p'\<rparr>)"

definition resizeD :: "nat option \<Rightarrow> 'w GameplayState \<Rightarrow> 'w GameplayState" where
  "resizeD cw s = resizeCanvasD (s\<lparr>canvas := (canvas s)\<lparr>parentClientWidth := cw\<rparr>\<rparr>)"

definition GameplayStateD_new ::
  "Canvas \<Rightarrow> 'w StateManager \<Rightarrow> 'w \<Rightarrow> string + 'w GameplayState" where
  "GameplayStateD_new c m w =
     (if \<not> hasContext c then Inl ''Issue with Rendering Context''
      else
        let g = \<lparr>gameWidth = canvasWidth c, gameHeight = canvasHeight c,
                 keys = Map.empty, gravity = 0.5, groundY = double (canvasHeight c - 40)\<rparr>;
            p = \<lparr>x = 100, y = double (groundY g - 32), width = 24, height = 32,
                 velocityX = 0, velocityY = 0, speed = 4, jumpPower = 12,
                 onGround = False, color = ''#FF6B6B''\<rparr>
        in Inr (resizeCanvasD
                  \<lparr>canvas = c, stateManager = m, heap = w, game = g, player = p,
                   sprites = None\<rparr>))"

definition horizontalMovementD :: "Game \<Rightarrow> Player \<Rightarrow> Player" where
  "horizontalMovementD g p =
     (if held (keys g) ''KeyA'' then p\<lparr>velocityX := - speed p\<rparr>
      else if held (keys g) ''KeyD'' then p\<lparr>velocityX := speed p\<rparr>
      else p\<lparr>velocityX := double (velocityX p * double 0.8)\<rparr>)"

definition applyGravityD :: "Game \<Rightarrow> Player \<Rightarrow> Player" where
  "applyGravityD g p =
     (if \<not> onGround p then p\<lparr>velocityY := double (velocityY p + gravity g)\<rparr> else p)"

definition updatePositionD :: "Player \<Rightarrow> Player" where
  "updatePositionD p =
     p\<lparr>x := double (x p + velocityX p), y := double (y p + velocityY p)\<rparr>"

definition groundCollisionD :: "Game \<Rightarrow> Player \<Rightarrow> Player" where
  "groundCollisionD g p =
     (if double (y p + height p) \<ge> groundY g
      then p\<lparr>y := double (groundY g - height p), velocityY := 0, onGround := True\<rparr>
      else p)"

definition keepInBoundsD :: "Game \<Rightarrow> Player \<Rightarrow> Player" where
  "keepInBoundsD g p =
     (if x p < 0 then p\<lparr>x := 0, velocityX := 0\<rparr>
      else if double (x p + width p) > gameWidth g
        then p\<lparr>x := double (gameWidth g - width p), velocityX := 0\<rparr>
        else p)"

definition integratedD :: "Game \<Rightarrow> Player \<Rightarrow> Player" where
  "integratedD g p = updatePositionD (applyGravityD g (jumping g (horizontalMovementD g p)))"

definition physicsD :: "Game \<Rightarrow> Player \<Rightarrow> Player" where
  "physicsD g p = keepInBoundsD g (groundCollisionD g (integratedD g p))"

definition Sprite_updateD :: "real \<Rightarrow> Sprite \<Rightarrow> Sprite" where
  "Sprite_updateD currentTime sp =
     (if totalFrames sp \<le> 1 then sp
      else if double (currentTime - lastFrameTime sp) \<ge> animationSpeed sp
        then sp\<lparr>currentFrame := (currentFrame sp + 1) smod totalFrames sp,
                lastFrameTime := currentTime\<rparr>
        else sp)"

fun forEachSpriteD :: "(nat \<Rightarrow> real) \<Rightarrow> nat \<Rightarrow> (string \<times> Sprite) list \<Rightarrow> (string \<times> Sprite) list" where
  "forEachSpriteD clock i [] = []"
| "forEachSpriteD clock i ((k, sp) # rest) =
     (k, Sprite_updateD (clock i) sp) # forEachSpriteD clock (Suc i) rest"

definition updateSpritesD :: "(nat \<Rightarrow> real) \<Rightarrow> 'w GameplayState \<Rightarrow> 'w GameplayState" where
  "updateSpritesD clock s =
     (case sprites s of
        None \<Rightarrow> s
      | Some sprs \<Rightarrow> s\<lparr>sprites := Some (forEachSpriteD clock 0 sprs)\<rparr>)"

definition updateD :: "(nat \<Rightarrow> real) \<Rightarrow> 'w GameplayState \<Rightarrow> 'w GameplayState" where
  "updateD clock s =
     updateSpritesD clock (pauseCheck (s\<lparr>player := physicsD (game s) (player s)\<rparr>))"

text \<open>Runs of the binary64 form.\<close>

fun stepD :: "event \<Rightarrow> 'w GameplayState \<Rightarrow> 'w GameplayState" where
  "stepD (KeyDown code) s = keydown code s"
| "stepD (KeyUp code) s = keyup code s"
| "stepD (Resize cw) s = resizeD cw s"
| "stepD (Tick clock) s = updateD clock s"

fun runD :: "event list \<Rightarrow> 'w GameplayState \<Rightarrow> 'w GameplayState" where
  "runD [] s = s"
| "runD (e # es) s = runD es (stepD e s)"

text \<open>
  A player at rest in the binary64 form: when \<open>onGround\<close> is set, \<open>velocityY\<close> is 0 and
  \<open>y\<close> is the value the collision step and the resize handler assign.
\<close>

definition restingD :: "Game \<Rightarrow> Player \<Rightarrow> bool" where
  "restingD g p \<longleftrightarrow>
     (onGround p \<longrightarrow> velocityY p = 0 \<and> y p = double (groundY g - height p))"

text \<open>
  Concrete states of the binary64 form. \<open>fresh821\<close> and \<open>fresh804\<close> are the objects the
  constructor returns on a canvas whose parent is 821 and 804 wide, \<open>landed821\<close> and
  \<open>landed804\<close> the states one tick later. On a parent 800 wide the constructor returns
  \<open>fresh\<close> in this form too; \<open>landedD\<close> is the state one tick later and \<open>jumpPressedD\<close>
  that state with the jump key down.
\<close>

definition canvas821 :: Canvas where
  "canvas821 = demoCanvas\<lparr>parentClientWidth := Some 821\<rparr>"

definition fresh821 :: "unit GameplayState" where
  "fresh821 = projr (GameplayStateD_new canvas821 StateManager_new ())"

definition landed821 :: "unit GameplayState" where
  "landed821 = updateD frozenClock fresh821"

definition canvas804 :: Canvas where
  "canvas804 = demoCanvas\<lparr>parentClientWidth := Some 804\<rparr>"

definition fresh804 :: "unit GameplayState" where
  "fresh804 = projr (GameplayStateD_new canvas804 StateManager_new ())"

definition landed804 :: "unit GameplayState" where
  "landed804 = updateD frozenClock fresh804"

definition landedD :: "unit GameplayState" where
  "landedD = updateD frozenClock fresh"

definition jumpPressedD :: "unit GameplayState" where
  "jumpPressedD = keydown ''Space'' landedD"

section \<open>The state manager\<close>

lemma setState_fst: "fst (setState n m w) = m\<lparr>currentState := n\<rparr>"
  by (simp add: setState_def Let_def split: option.split)

lemma setState_snd:
  "snd (setState n m w) = (case onStateChange m of Some f \<Rightarrow> f n w | None \<Rightarrow> w)"
  by (simp add: setState_def Let_def split: option.split)

lemma calls_append: "calls (cs @ ds) mw = calls ds (calls cs mw)"
  by (induction cs arbitrary: mw) simp_all

section \<open>The update step, field by field\<close>

lemmas physics_defs = horizontalMovement_def jumping_def applyGravity_def updatePosition_def
  groundCollision_def keepInBounds_def integrated_def physics_def

lemma update_game: "game (update clock s) = game s"
  by (simp add: update_def updateSprites_def pauseCheck_def split: option.split prod.split)

lemma update_player: "player (update clock s) = physics (game s) (player s)"
  by (simp add: update_def updateSprites_def pauseCheck_def split: option.split prod.split)


lemma horizontalMovement_other:
  "x (horizontalMovement g p) = x p" "y (horizontalMovement g p) = y p"
  "width (horizontalMovement g p) = width p" "height (horizontalMovement g p) = height p"
  "velocityY (horizontalMovement g p) = velocityY p" "speed (horizontalMovement g p) = speed p"
  "jumpPower (horizontalMovement g p) = jumpPower p" "onGround (horizontalMovement g p) = onGround p"
  "color (horizontalMovement g p) = color p"
  by (simp_all add: horizontalMovement_def)

lemma keepInBounds_other:
  "y (keepInBounds g p) = y p"
  "width (keepInBounds g p) = width p" "height (keepInBounds g p) = height p"
  "velocityY (keepInBounds g p) = velocityY p" "speed (keepInBounds g p) = speed p"
  "jumpPower (keepInBounds g p) = jumpPower p" "onGround (keepInBounds g p) = onGround p"
  "color (keepInBounds g p) = color p"
  by (simp_all add: keepInBounds_def)

lemma integrated_vertical:
  "height (integrated g p) = height p"
  "onGround (integrated g p) = (onGround p \<and> \<not> held (keys g) ''Space'')"
  "velocityY (integrated g p) =
     (if onGround p then (if held (keys g) ''Space'' then gravity g - jumpPower p else velocityY p)
      else velocityY p + gravity g)"
  "y (integrated g p) = y p + velocityY (integrated g p)"
  by (auto simp: integrated_def updatePosition_def applyGravity_def jumping_def
      horizontalMovement_other)



lemma physics_vertical:
  "height (physics g p) = height p"
  "y (physics g p) =
     (if groundY g \<le> y (integrated g p) + height p then groundY g - height p
      else y (integrated g p))"
  "velocityY (physics g p) =
     (if groundY g \<le> y (integrated g p) + height p then 0 else velocityY (integrated g p))"
  "onGround (physics g p) =
     (if groundY g \<le> y (integrated g p) + height p then True else onGround (integrated g p))"
  by (simp_all add: physics_def keepInBounds_other groundCollision_def integrated_vertical(1))






lemma update_stateManager:
  "stateManager (update clock s) =
     (if held (keys (game s)) ''Escape'' then (stateManager s)\<lparr>currentState := PAUSE\<rparr>
      else stateManager s)"
  by (simp add: update_def updateSprites_def pauseCheck_def setState_def Let_def
      split: option.split prod.split)

lemma update_heap:
  "heap (update clock s) =
     (if held (keys (game s)) ''Escape''
      then (case onStateChange (stateManager s) of Some f \<Rightarrow> f PAUSE (heap s) | None \<Rightarrow> heap s)
      else heap s)"
  by (simp add: update_def updateSprites_def pauseCheck_def setState_def Let_def
      split: option.split prod.split)




section \<open>States reached from the constructor are well formed\<close>











section \<open>The concrete states\<close>









lemma released_reached:
  "run [KeyDown ''KeyA'', Tick frozenClock, KeyUp ''KeyA''] standing = released"
  by (simp add: update_def updateSprites_def pauseCheck_def keydown_def keyup_def
      released_def coasting_def standing_def fresh_def physics_defs held_def)

lemma resize_changes_tunables: "tunables (resize (Some 1600) fresh) \<noteq> tunables fresh"
  by (simp add: tunables_def resize_def resizeCanvas_def Let_def containerWidth_def fresh_def)



section \<open>The falling player\<close>

lemma ticksUntilGround_skip:
  assumes "\<And>j. j < k \<Longrightarrow> \<not> onGround (player ((update clock ^^ j) s))"
  shows "ticksUntilGround clock n s = ticksUntilGround clock (n + k) ((update clock ^^ k) s)"
  using assms
proof (induction k arbitrary: n s)
  case 0
  show ?case by simp
next
  case (Suc k)
  from Suc.prems [of 0] have a: "\<not> onGround (player s)" by simp
  have b: "\<not> onGround (player ((update clock ^^ j) (update clock s)))" if "j < k" for j
    using Suc.prems [of "Suc j"] that by (simp add: funpow_swap1)
  have "ticksUntilGround clock n s = ticksUntilGround clock (Suc n) (update clock s)"
    using a by (subst ticksUntilGround.simps) simp
  also have "\<dots> = ticksUntilGround clock (Suc n + k) ((update clock ^^ k) (update clock s))"
    using b by (rule Suc.IH)
  finally show ?case by (simp add: funpow_swap1)
qed

lemma falling_tick:
  assumes "groundY g = 360" "gravity g = 1 / 2" "height p = 32" "\<not> onGround p"
    and "velocityY p = real k / 2" "y p = 100 + real k * (real k + 1) / 4"
  shows "height (physics g p) = 32"
    and "velocityY (physics g p) = (if k < 29 then real (Suc k) / 2 else 0)"
    and "y (physics g p) = (if k < 29 then 100 + real (Suc k) * (real (Suc k) + 1) / 4 else 328)"
    and "onGround (physics g p) = (\<not> k < 29)"
proof -
  have v: "velocityY (integrated g p) = real (Suc k) / 2"
    using assms by (simp add: integrated_vertical field_simps)
  have yy: "y (integrated g p) = 100 + real (Suc k) * (real (Suc k) + 1) / 4"
    using assms v by (simp add: integrated_vertical(4) field_simps)
  have o: "\<not> onGround (integrated g p)"
    using assms by (simp add: integrated_vertical)
  have c: "(groundY g \<le> y (integrated g p) + height p) = (\<not> k < 29)"
  proof (cases "k < 29")
    case True
    then have "real (Suc k) \<le> 29" by simp
    then have "real (Suc k) * (real (Suc k) + 1) \<le> 29 * 30"
      by (intro mult_mono) simp_all
    with True show ?thesis using assms(1,3) yy by simp
  next
    case False
    then have "29 \<le> k" by simp
    then have "30 \<le> real (Suc k)" by simp
    then have "30 * 31 \<le> real (Suc k) * (real (Suc k) + 1)"
      by (intro mult_mono) simp_all
    with False show ?thesis using assms(1,3) yy by simp
  qed
  show "height (physics g p) = 32" using assms by (simp add: physics_vertical)
  show "velocityY (physics g p) = (if k < 29 then real (Suc k) / 2 else 0)"
    using c v by (simp add: physics_vertical)
  show "y (physics g p) = (if k < 29 then 100 + real (Suc k) * (real (Suc k) + 1) / 4 else 328)"
    using c yy assms(1,3) by (simp add: physics_vertical)
  show "onGround (physics g p) = (\<not> k < 29)"
    using c o by (simp add: physics_vertical)
qed

lemma falling_steps:
  assumes "groundY (game s) = 360" "gravity (game s) = 1 / 2" "height (player s) = 32"
    "\<not> onGround (player s)" "velocityY (player s) = 0" "y (player s) = 100"
    and "k \<le> 29"
  shows "game ((update clock ^^ k) s) = game s \<and>
    height (player ((update clock ^^ k) s)) = 32 \<and>
    \<not> onGround (player ((update clock ^^ k) s)) \<and>
    velocityY (player ((update clock ^^ k) s)) = real k / 2 \<and>
    y (player ((update clock ^^ k) s)) = 100 + real k * (real k + 1) / 4"
  using assms(7)
proof (induction k)
  case 0
  from assms(1-6) show ?case by simp
next
  case (Suc k)
  then have k: "k < 29" and IH: "game ((update clock ^^ k) s) = game s"
    "height (player ((update clock ^^ k) s)) = 32"
    "\<not> onGround (player ((update clock ^^ k) s))"
    "velocityY (player ((update clock ^^ k) s)) = real k / 2"
    "y (player ((update clock ^^ k) s)) = 100 + real k * (real k + 1) / 4"
    by simp_all
  note f = falling_tick [OF assms(1,2) IH(2,3,4,5)]
  from k IH(1) f show ?case
    by (simp add: update_game update_player del: of_nat_Suc)
qed

lemma spec_fall_y_closed: "spec_fall_y n = 100 + real n * (real n + 1) / 4"
proof -
  have "(\<Sum>k = 1..n. 0.5 * real k) = real n * (real n + 1) / 4"
    by (induction n) (simp_all add: field_simps)
  then show ?thesis by (simp add: spec_fall_y_def)
qed

lemma spec_fall_least: "(LEAST n. 360 - 32 \<le> spec_fall_y n) = 30"
proof (rule Least_equality)
  show "360 - 32 \<le> spec_fall_y 30"
    by (simp add: spec_fall_y_closed)
next
  fix m
  assume a: "360 - 32 \<le> spec_fall_y m"
  show "30 \<le> m"
  proof (rule ccontr)
    assume "\<not> 30 \<le> m"
    then have "real m \<le> 29" by simp
    then have "real m * (real m + 1) \<le> 29 * 30"
      by (intro mult_mono) simp_all
    with a show False by (simp add: spec_fall_y_closed)
  qed
qed

section \<open>Binary64 rounding\<close>

lemma roundEven_of_int: "roundEven (of_int m) = m"
  by (simp add: roundEven_def)

lemma roundEven_bounds:
  assumes "of_int a \<le> v" "v \<le> of_int b"
  shows "a \<le> roundEven v \<and> roundEven v \<le> b"
proof -
  have f: "a \<le> \<lfloor>v\<rfloor>" "\<lfloor>v\<rfloor> \<le> b"
    using assms by (simp_all add: le_floor_iff floor_le_iff)
  show ?thesis
  proof (cases "\<lfloor>v\<rfloor> = b")
    case True
    then have "v = of_int b"
      using assms(2) by (metis floor_le_iff of_int_floor_le order_antisym True)
    then show ?thesis using f by (simp add: roundEven_of_int)
  next
    case False
    with f have "\<lfloor>v\<rfloor> + 1 \<le> b" by simp
    with f show ?thesis by (auto simp: roundEven_def Let_def)
  qed
qed

lemma powr_powi:
  "2 powr (real_of_int k + 1) = (2::real) powi (k + 1)"
  "2 powr real_of_int k = (2::real) powi k"
  using powr_real_of_int' [of 2 "k + 1"] powr_real_of_int' [of 2 k] by simp_all

lemma floor_log2:
  assumes "r \<noteq> 0"
  shows "2 powi \<lfloor>log 2 \<bar>r\<bar>\<rfloor> \<le> \<bar>r\<bar>" "\<bar>r\<bar> < 2 powi (\<lfloor>log 2 \<bar>r\<bar>\<rfloor> + 1)"
proof -
  from assms have p: "0 < \<bar>r\<bar>" by simp
  have "2 powr real_of_int \<lfloor>log 2 \<bar>r\<bar>\<rfloor> \<le> \<bar>r\<bar> \<and>
      \<bar>r\<bar> < 2 powr (real_of_int \<lfloor>log 2 \<bar>r\<bar>\<rfloor> + 1)"
    using floor_log_eq_powr_iff [OF p, of 2 "\<lfloor>log 2 \<bar>r\<bar>\<rfloor>"] by simp
  then show "2 powi \<lfloor>log 2 \<bar>r\<bar>\<rfloor> \<le> \<bar>r\<bar>" "\<bar>r\<bar> < 2 powi (\<lfloor>log 2 \<bar>r\<bar>\<rfloor> + 1)"
    by (simp_all only: powr_powi)
qed

lemma floor_log2_eq:
  assumes "2 powi k \<le> \<bar>r\<bar>" "\<bar>r\<bar> < 2 powi (k + 1)"
  shows "\<lfloor>log 2 \<bar>r\<bar>\<rfloor> = k"
proof -
  have "(0::real) < 2 powi k" by simp
  with assms(1) have p: "0 < \<bar>r\<bar>" by linarith
  have "2 powr real_of_int k \<le> \<bar>r\<bar> \<and> \<bar>r\<bar> < 2 powr (real_of_int k + 1)"
    using assms by (simp only: powr_powi)
  then show ?thesis
    using floor_log_eq_powr_iff [OF p, of 2 k] by simp
qed

lemma binade_ge: "- 1022 \<le> binade r"
  by (simp add: binade_def)

lemma binade_upper:
  assumes "r \<noteq> 0"
  shows "\<bar>r\<bar> < 2 powi (binade r + 1)"
proof -
  have "\<lfloor>log 2 \<bar>r\<bar>\<rfloor> + 1 \<le> binade r + 1" by (simp add: binade_def)
  then have "(2::real) powi (\<lfloor>log 2 \<bar>r\<bar>\<rfloor> + 1) \<le> 2 powi (binade r + 1)"
    by (intro power_int_increasing) simp_all
  with floor_log2(2) [OF assms] show ?thesis by simp
qed

lemma binade_eq:
  assumes "2 powi k \<le> \<bar>r\<bar>" "\<bar>r\<bar> < 2 powi (k + 1)" "- 1022 \<le> k"
  shows "binade r = k"
  using floor_log2_eq [OF assms(1,2)] assms(3) by (simp add: binade_def)

lemma binade_le:
  assumes "r \<noteq> 0" "\<bar>r\<bar> < 2 powi (k + 1)" "- 1022 \<le> k"
  shows "binade r \<le> k"
proof -
  have "\<lfloor>log 2 \<bar>r\<bar>\<rfloor> \<le> k"
  proof (rule ccontr)
    assume "\<not> \<lfloor>log 2 \<bar>r\<bar>\<rfloor> \<le> k"
    then have "k + 1 \<le> \<lfloor>log 2 \<bar>r\<bar>\<rfloor>" by simp
    then have "(2::real) powi (k + 1) \<le> 2 powi \<lfloor>log 2 \<bar>r\<bar>\<rfloor>"
      by (intro power_int_increasing) simp_all
    with floor_log2(1) [OF assms(1)] assms(2) show False by simp
  qed
  with assms(3) show ?thesis by (simp add: binade_def)
qed

lemma double_of_scaled:
  assumes "d = of_int m * 2 powi (k - 52)" "d \<noteq> 0" "binade d = k - n" "0 \<le> n"
  shows "double d = d"
proof -
  have "d / 2 powi (binade d - 52) = of_int m * (2 powi (k - 52) / 2 powi (k - n - 52))"
    using assms by simp
  also have "(2::real) powi (k - 52) / 2 powi (k - n - 52) = 2 powi n"
    by (simp flip: power_int_diff)
  also have "\<dots> = of_int (2 ^ nat n)"
    using assms(4) by (simp add: power_int_def)
  finally have q: "d / 2 powi (binade d - 52) = of_int (m * 2 ^ nat n)"
    by simp
  have "double d = of_int (m * 2 ^ nat n) * 2 powi (binade d - 52)"
    using assms(2) by (simp add: double_def q roundEven_of_int del: of_int_mult of_int_power)
  also have "\<dots> = d"
    using q by (simp add: field_simps)
  finally show ?thesis .
qed

lemma double_idem: "double (double r) = double r"
proof (cases "double r = 0")
  case True
  then show ?thesis by (simp add: double_def)
next
  case False
  then have r: "r \<noteq> 0" by (auto simp: double_def)
  define e where "e = binade r"
  define u :: real where "u = 2 powi (e - 52)"
  define m where "m = roundEven (r / u)"
  have u: "0 < u" by (simp add: u_def)
  have d: "double r = of_int m * 2 powi (e - 52)"
    using r by (simp add: double_def m_def u_def e_def)
  have "\<bar>r\<bar> < 2 powi (e + 1)" using binade_upper [OF r] by (simp add: e_def)
  also have "(2::real) powi (e + 1) = 2 ^ 53 * u"
    by (simp add: u_def power_int_add power_int_diff)
  finally have "\<bar>r / u\<bar> < 2 ^ 53" using u by (simp add: field_simps)
  then have "- (2 ^ 53) \<le> r / u" "r / u \<le> 2 ^ 53" by linarith+
  then have "of_int (- (2 ^ 53)) \<le> r / u" "r / u \<le> of_int (2 ^ 53)" by simp_all
  then have mb: "- (2 ^ 53) \<le> m" "m \<le> 2 ^ 53"
    using roundEven_bounds [of "- (2 ^ 53)" "r / u" "2 ^ 53"] by (simp_all add: m_def)
  have e: "- 1022 \<le> e" by (simp add: e_def binade_ge)
  show ?thesis
  proof (cases "\<bar>m\<bar> = 2 ^ 53")
    case True
    then have "\<bar>double r\<bar> = 2 ^ 53 * u" by (simp add: d u_def abs_mult)
    also have "\<dots> = 2 powi (e + 1)" by (simp add: u_def power_int_add power_int_diff)
    finally have a: "\<bar>double r\<bar> = 2 powi (e + 1)" .
    have "(2::real) powi (e + 1) < 2 powi (e + 1 + 1)"
      by (intro power_int_strict_increasing) simp_all
    with a have "binade (double r) = e + 1"
      using e by (intro binade_eq) simp_all
    moreover have "\<exists>j. m = 2 * j"
      using True by (cases "0 \<le> m") (auto intro: exI[of _ "2 ^ 52"] exI[of _ "- (2 ^ 52)"])
    then obtain j where j: "m = 2 * j" by blast
    have "double r = of_int j * 2 powi ((e + 1) - 52)"
      by (simp add: d j power_int_add power_int_diff)
    ultimately show ?thesis
      using double_of_scaled [of "double r" j "e + 1" 0] False by simp
  next
    case False
    with mb have "\<bar>m\<bar> < 2 ^ 53" by linarith
    then have "\<bar>real_of_int m\<bar> < 2 ^ 53"
      by (metis of_int_abs of_int_less_numeral_power_cancel_iff)
    then have "\<bar>double r\<bar> < 2 ^ 53 * u" using u by (simp add: d u_def abs_mult)
    also have "\<dots> = 2 powi (e + 1)" by (simp add: u_def power_int_add power_int_diff)
    finally have "binade (double r) \<le> e"
      using \<open>double r \<noteq> 0\<close> e by (intro binade_le) simp_all
    then have "binade (double r) = e - (e - binade (double r))" "0 \<le> e - binade (double r)"
      by simp_all
    then show ?thesis
      using double_of_scaled [OF d \<open>double r \<noteq> 0\<close>] by blast
  qed
qed

lemma double_0: "double 0 = 0"
  by (simp add: double_def)

lemma double_at:
  assumes "2 powi e \<le> \<bar>r\<bar>" "\<bar>r\<bar> < 2 powi (e + 1)" "- 1022 \<le> e"
  shows "double r = of_int (roundEven (r / 2 powi (e - 52))) * 2 powi (e - 52)"
proof -
  have "(0::real) < 2 powi e" by simp
  with assms(1) have "0 < \<bar>r\<bar>" by linarith
  then have "r \<noteq> 0" by simp
  then show ?thesis by (simp add: double_def binade_eq [OF assms])
qed

text \<open>
  The roundings that occur in the runs below, on a parent 800, 821 and 804 wide. Each
  is an instance of \<open>double_at\<close> with the binade given.
\<close>

lemma double_800:
  shows "double (1 / 2) = 1 / 2"
    and "double (1) = 1"
    and "double (2) = 2"
    and "double (4) = 4"
    and "double (- (23 / 2)) = - (23 / 2)"
    and "double (12) = 12"
    and "double (24) = 24"
    and "double (32) = 32"
    and "double (40) = 40"
    and "double (100) = 100"
    and "double (633 / 2) = 633 / 2"
    and "double (328) = 328"
    and "double (657 / 2) = 657 / 2"
    and "double (697 / 2) = 697 / 2"
    and "double (360) = 360"
    and "double (721 / 2) = 721 / 2"
    and "double (400) = 400"
proof -
  show "double (1 / 2) = 1 / 2"
    by (subst double_at [where e = "- 1"]) (simp_all add: roundEven_def Let_def)
  show "double (1) = 1"
    by (subst double_at [where e = "0"]) (simp_all add: roundEven_def Let_def)
  show "double (2) = 2"
    by (subst double_at [where e = "1"]) (simp_all add: roundEven_def Let_def)
  show "double (4) = 4"
    by (subst double_at [where e = "2"]) (simp_all add: roundEven_def Let_def)
  show "double (- (23 / 2)) = - (23 / 2)"
    by (subst double_at [where e = "3"]) (simp_all add: roundEven_def Let_def)
  show "double (12) = 12"
    by (subst double_at [where e = "3"]) (simp_all add: roundEven_def Let_def)
  show "double (24) = 24"
    by (subst double_at [where e = "4"]) (simp_all add: roundEven_def Let_def)
  show "double (32) = 32"
    by (subst double_at [where e = "5"]) (simp_all add: roundEven_def Let_def)
  show "double (40) = 40"
    by (subst double_at [where e = "5"]) (simp_all add: roundEven_def Let_def)
  show "double (100) = 100"
    by (subst double_at [where e = "6"]) (simp_all add: roundEven_def Let_def)
  show "double (633 / 2) = 633 / 2"
    by (subst double_at [where e = "8"]) (simp_all add: roundEven_def Let_def)
  show "double (328) = 328"
    by (subst double_at [where e = "8"]) (simp_all add: roundEven_def Let_def)
  show "double (657 / 2) = 657 / 2"
    by (subst double_at [where e = "8"]) (simp_all add: roundEven_def Let_def)
  show "double (697 / 2) = 697 / 2"
    by (subst double_at [where e = "8"]) (simp_all add: roundEven_def Let_def)
  show "double (360) = 360"
    by (subst double_at [where e = "8"]) (simp_all add: roundEven_def Let_def)
  show "double (721 / 2) = 721 / 2"
    by (subst double_at [where e = "8"]) (simp_all add: roundEven_def Let_def)
  show "double (400) = 400"
    by (subst double_at [where e = "8"]) (simp_all add: roundEven_def Let_def)
qed

lemma double_821:
  shows "double (1155454779397243 / 2251799813685248) = 1155454779397243 / 2251799813685248"
    and "double (821 / 800) = 1155454779397243 / 1125899906842624"
    and "double (2) = 2"
    and "double (1155454779397243 / 35184372088832) = 1155454779397243 / 35184372088832"
    and "double (5777273896986215 / 140737488355328) = 5777273896986215 / 140737488355328"
    and "double (11825819302777323 / 35184372088832) = 2956454825694331 / 8796093022208"
    and "double (758007890157145979 / 2251799813685248) = 5921936641852703 / 17592186044416"
    and "double (51925096328698265 / 140737488355328) = 6490637041087283 / 17592186044416"
    and "double (12981274082174567 / 35184372088832) = 1622659260271821 / 4398046511104"
    and "double (12999328063102649 / 35184372088832) = 1624916007887831 / 4398046511104"
    and "double (821 / 2) = 821 / 2"
proof -
  show "double (1155454779397243 / 2251799813685248) = 1155454779397243 / 2251799813685248"
    by (subst double_at [where e = "- 1"]) (simp_all add: roundEven_def Let_def)
  show "double (821 / 800) = 1155454779397243 / 1125899906842624"
    by (subst double_at [where e = "0"]) (simp_all add: roundEven_def Let_def)
  show "double (2) = 2"
    by (subst double_at [where e = "1"]) (simp_all add: roundEven_def Let_def)
  show "double (1155454779397243 / 35184372088832) = 1155454779397243 / 35184372088832"
    by (subst double_at [where e = "5"]) (simp_all add: roundEven_def Let_def)
  show "double (5777273896986215 / 140737488355328) = 5777273896986215 / 140737488355328"
    by (subst double_at [where e = "5"]) (simp_all add: roundEven_def Let_def)
  show "double (11825819302777323 / 35184372088832) = 2956454825694331 / 8796093022208"
    by (subst double_at [where e = "8"]) (simp_all add: roundEven_def Let_def)
  show "double (758007890157145979 / 2251799813685248) = 5921936641852703 / 17592186044416"
    by (subst double_at [where e = "8"]) (simp_all add: roundEven_def Let_def)
  show "double (51925096328698265 / 140737488355328) = 6490637041087283 / 17592186044416"
    by (subst double_at [where e = "8"]) (simp_all add: roundEven_def Let_def)
  show "double (12981274082174567 / 35184372088832) = 1622659260271821 / 4398046511104"
    by (subst double_at [where e = "8"]) (simp_all add: roundEven_def Let_def)
  show "double (12999328063102649 / 35184372088832) = 1624916007887831 / 4398046511104"
    by (subst double_at [where e = "8"]) (simp_all add: roundEven_def Let_def)
  show "double (821 / 2) = 821 / 2"
    by (subst double_at [where e = "8"]) (simp_all add: roundEven_def Let_def)
qed

lemma double_804:
  shows "double (1131529406376837 / 2251799813685248) = 1131529406376837 / 2251799813685248"
    and "double (201 / 200) = 1131529406376837 / 1125899906842624"
    and "double (2) = 2"
    and "double (1131529406376837 / 35184372088832) = 1131529406376837 / 35184372088832"
    and "double (5657647031884185 / 140737488355328) = 5657647031884185 / 140737488355328"
    and "double (2899544103840645 / 8796093022208) = 2899544103840645 / 8796093022208"
    and "double (11598176415362581 / 35184372088832) = 2899544103840645 / 8796093022208"
    and "double (743414819989581957 / 2251799813685248) = 5807928281168609 / 17592186044416"
    and "double (12729705821739417 / 35184372088832) = 1591213227717427 / 4398046511104"
    and "double (50918823286957671 / 140737488355328) = 6364852910869709 / 17592186044416"
    and "double (12747385968714055 / 35184372088832) = 1593423246089257 / 4398046511104"
    and "double (402) = 402"
proof -
  show "double (1131529406376837 / 2251799813685248) = 1131529406376837 / 2251799813685248"
    by (subst double_at [where e = "- 1"]) (simp_all add: roundEven_def Let_def)
  show "double (201 / 200) = 1131529406376837 / 1125899906842624"
    by (subst double_at [where e = "0"]) (simp_all add: roundEven_def Let_def)
  show "double (2) = 2"
    by (subst double_at [where e = "1"]) (simp_all add: roundEven_def Let_def)
  show "double (1131529406376837 / 35184372088832) = 1131529406376837 / 35184372088832"
    by (subst double_at [where e = "5"]) (simp_all add: roundEven_def Let_def)
  show "double (5657647031884185 / 140737488355328) = 5657647031884185 / 140737488355328"
    by (subst double_at [where e = "5"]) (simp_all add: roundEven_def Let_def)
  show "double (2899544103840645 / 8796093022208) = 2899544103840645 / 8796093022208"
    by (subst double_at [where e = "8"]) (simp_all add: roundEven_def Let_def)
  show "double (11598176415362581 / 35184372088832) = 2899544103840645 / 8796093022208"
    by (subst double_at [where e = "8"]) (simp_all add: roundEven_def Let_def)
  show "double (743414819989581957 / 2251799813685248) = 5807928281168609 / 17592186044416"
    by (subst double_at [where e = "8"]) (simp_all add: roundEven_def Let_def)
  show "double (12729705821739417 / 35184372088832) = 1591213227717427 / 4398046511104"
    by (subst double_at [where e = "8"]) (simp_all add: roundEven_def Let_def)
  show "double (50918823286957671 / 140737488355328) = 6364852910869709 / 17592186044416"
    by (subst double_at [where e = "8"]) (simp_all add: roundEven_def Let_def)
  show "double (12747385968714055 / 35184372088832) = 1593423246089257 / 4398046511104"
    by (subst double_at [where e = "8"]) (simp_all add: roundEven_def Let_def)
  show "double (402) = 402"
    by (subst double_at [where e = "8"]) (simp_all add: roundEven_def Let_def)
qed

section \<open>The update step on binary64 numbers\<close>

lemma updateD_game: "game (updateD clock s) = game s"
  by (simp add: updateD_def updateSpritesD_def pauseCheck_def split: option.split prod.split)

lemma updateD_player: "player (updateD clock s) = physicsD (game s) (player s)"
  by (simp add: updateD_def updateSpritesD_def pauseCheck_def split: option.split prod.split)

lemma horizontalMovementD_other:
  "y (horizontalMovementD g p) = y p" "height (horizontalMovementD g p) = height p"
  "velocityY (horizontalMovementD g p) = velocityY p"
  "jumpPower (horizontalMovementD g p) = jumpPower p"
  "onGround (horizontalMovementD g p) = onGround p"
  by (simp_all add: horizontalMovementD_def)

lemma keepInBoundsD_other:
  "y (keepInBoundsD g p) = y p" "height (keepInBoundsD g p) = height p"
  "velocityY (keepInBoundsD g p) = velocityY p" "onGround (keepInBoundsD g p) = onGround p"
  by (simp_all add: keepInBoundsD_def)

lemma integratedD_vertical:
  "height (integratedD g p) = height p"
  "onGround (integratedD g p) = (onGround p \<and> \<not> held (keys g) ''Space'')"
  "velocityY (integratedD g p) =
     (if onGround p
      then (if held (keys g) ''Space'' then double (- jumpPower p + gravity g) else velocityY p)
      else double (velocityY p + gravity g))"
  "y (integratedD g p) = double (y p + velocityY (integratedD g p))"
  by (auto simp: integratedD_def updatePositionD_def applyGravityD_def jumping_def
      horizontalMovementD_other)

lemma physicsD_vertical:
  "height (physicsD g p) = height p"
  "y (physicsD g p) =
     (if groundY g \<le> double (y (integratedD g p) + height p) then double (groundY g - height p)
      else y (integratedD g p))"
  "velocityY (physicsD g p) =
     (if groundY g \<le> double (y (integratedD g p) + height p) then 0
      else velocityY (integratedD g p))"
  "onGround (physicsD g p) =
     (if groundY g \<le> double (y (integratedD g p) + height p) then True
      else onGround (integratedD g p))"
  by (simp_all add: physicsD_def keepInBoundsD_other groundCollisionD_def integratedD_vertical(1))

lemma physicsD_resting:
  assumes "restingD g p"
  shows "restingD g (physicsD g p)"
proof (cases "groundY g \<le> double (y (integratedD g p) + height p)")
  case True
  then show ?thesis by (simp add: restingD_def physicsD_vertical)
next
  case False
  show ?thesis
  proof (cases "onGround (integratedD g p)")
    case True
    then have a: "onGround p" "\<not> held (keys g) ''Space''"
      by (simp_all add: integratedD_vertical)
    with assms have b: "velocityY p = 0" "y p = double (groundY g - height p)"
      by (simp_all add: restingD_def)
    from a b have "velocityY (integratedD g p) = 0"
      by (simp add: integratedD_vertical)
    moreover from this b have "y (integratedD g p) = double (groundY g - height p)"
      by (simp add: integratedD_vertical(4) double_idem)
    ultimately show ?thesis using False by (simp add: restingD_def physicsD_vertical)
  next
    case False
    with \<open>\<not> groundY g \<le> double (y (integratedD g p) + height p)\<close> show ?thesis
      by (simp add: restingD_def physicsD_vertical)
  qed
qed

lemma resizeCanvasD_resting:
  assumes "onGround (player s) \<longrightarrow> velocityY (player s) = 0"
  shows "restingD (game (resizeCanvasD s)) (player (resizeCanvasD s))"
  using assms by (simp add: restingD_def resizeCanvasD_def Let_def)

lemma newD_resting:
  assumes "GameplayStateD_new c m w = Inr s0"
  shows "restingD (game s0) (player s0)"
proof -
  from assms obtain t where "s0 = resizeCanvasD t" "\<not> onGround (player t)"
    by (auto simp: GameplayStateD_new_def Let_def split: if_splits)
  then show ?thesis by (simp add: resizeCanvasD_resting)
qed

lemma stepD_resting:
  assumes "restingD (game s) (player s)"
  shows "restingD (game (stepD e s)) (player (stepD e s))"
proof (cases e)
  case (KeyDown code)
  with assms show ?thesis by (simp add: keydown_def restingD_def)
next
  case (KeyUp code)
  with assms show ?thesis by (simp add: keyup_def restingD_def)
next
  case (Resize cw)
  from assms have "onGround (player s) \<longrightarrow> velocityY (player s) = 0"
    by (simp add: restingD_def)
  then show ?thesis
    unfolding Resize stepD.simps resizeD_def by (intro resizeCanvasD_resting) simp
next
  case (Tick clock)
  with assms show ?thesis by (simp add: updateD_game updateD_player physicsD_resting)
qed

lemma runD_resting:
  "restingD (game s) (player s) \<Longrightarrow> restingD (game (runD es s)) (player (runD es s))"
  by (induction es arbitrary: s) (simp_all add: stepD_resting)

lemma new821: "GameplayStateD_new canvas821 StateManager_new () = Inr fresh821"
  by (simp add: fresh821_def GameplayStateD_new_def canvas821_def demoCanvas_def)

lemma fresh821_values:
  "groundY (game fresh821) = 6490637041087283 / 17592186044416"
  "gravity (game fresh821) = 1155454779397243 / 2251799813685248"
  "keys (game fresh821) = Map.empty"
  "height (player fresh821) = 1155454779397243 / 35184372088832"
  "y (player fresh821) = 2956454825694331 / 8796093022208"
  "velocityY (player fresh821) = 0"
  "\<not> onGround (player fresh821)"
  by (simp_all add: fresh821_def GameplayStateD_new_def canvas821_def demoCanvas_def
      resizeCanvasD_def Let_def containerWidth_def canvasDim_def double_821)

lemma landed821_values:
  "groundY (game landed821) = 6490637041087283 / 17592186044416"
  "gravity (game landed821) = 1155454779397243 / 2251799813685248"
  "keys (game landed821) = Map.empty"
  "height (player landed821) = 1155454779397243 / 35184372088832"
  "y (player landed821) = 2956454825694331 / 8796093022208"
  "velocityY (player landed821) = 0"
  "onGround (player landed821)"
  by (simp_all add: landed821_def updateD_game updateD_player physicsD_vertical
      integratedD_vertical fresh821_values held_def double_821)

lemma new804: "GameplayStateD_new canvas804 StateManager_new () = Inr fresh804"
  by (simp add: fresh804_def GameplayStateD_new_def canvas804_def demoCanvas_def)

lemma fresh804_values:
  "groundY (game fresh804) = 6364852910869709 / 17592186044416"
  "gravity (game fresh804) = 1131529406376837 / 2251799813685248"
  "keys (game fresh804) = Map.empty"
  "height (player fresh804) = 1131529406376837 / 35184372088832"
  "y (player fresh804) = 2899544103840645 / 8796093022208"
  "velocityY (player fresh804) = 0"
  "\<not> onGround (player fresh804)"
  by (simp_all add: fresh804_def GameplayStateD_new_def canvas804_def demoCanvas_def
      resizeCanvasD_def Let_def containerWidth_def canvasDim_def double_804)

lemma landed804_values:
  "groundY (game landed804) = 6364852910869709 / 17592186044416"
  "gravity (game landed804) = 1131529406376837 / 2251799813685248"
  "keys (game landed804) = Map.empty"
  "height (player landed804) = 1131529406376837 / 35184372088832"
  "y (player landed804) = 2899544103840645 / 8796093022208"
  "velocityY (player landed804) = 0"
  "onGround (player landed804)"
  by (simp_all add: landed804_def updateD_game updateD_player physicsD_vertical
      integratedD_vertical fresh804_values held_def double_804)

lemma freshD_new: "GameplayStateD_new demoCanvas StateManager_new () = Inr fresh"
  by (simp add: GameplayStateD_new_def demoCanvas_def fresh_def resizeCanvasD_def Let_def
      containerWidth_def canvasDim_def double_800)

lemma physicsD_jumpPower: "jumpPower (physicsD g p) = jumpPower p"
proof -
  have "jumpPower (integratedD g p) = jumpPower p"
    by (simp add: integratedD_def updatePositionD_def applyGravityD_def jumping_def
        horizontalMovementD_other)
  then show ?thesis
    by (simp add: physicsD_def keepInBoundsD_def groundCollisionD_def)
qed

lemma fresh_fields:
  "groundY (game fresh) = 360"
  "gravity (game fresh) = 1 / 2"
  "keys (game fresh) = Map.empty"
  "height (player fresh) = 32"
  "jumpPower (player fresh) = 12"
  "y (player fresh) = 328"
  "velocityY (player fresh) = 0"
  "\<not> onGround (player fresh)"
  by (simp_all add: fresh_def)

lemma landedD_values:
  "groundY (game landedD) = 360"
  "gravity (game landedD) = 1 / 2"
  "keys (game landedD) = Map.empty"
  "height (player landedD) = 32"
  "jumpPower (player landedD) = 12"
  "y (player landedD) = 328"
  "velocityY (player landedD) = 0"
  "onGround (player landedD)"
  by (simp_all add: landedD_def updateD_game updateD_player physicsD_vertical
      integratedD_vertical physicsD_jumpPower fresh_fields held_def double_800)

lemma jumpPressedD_values:
  "groundY (game jumpPressedD) = 360"
  "gravity (game jumpPressedD) = 1 / 2"
  "keys (game jumpPressedD) = [''Space'' \<mapsto> True]"
  "height (player jumpPressedD) = 32"
  "jumpPower (player jumpPressedD) = 12"
  "y (player jumpPressedD) = 328"
  "velocityY (player jumpPressedD) = 0"
  "onGround (player jumpPressedD)"
  by (simp_all add: jumpPressedD_def keydown_def landedD_values)

lemma jumpPressedD_reached:
  "runD [Tick frozenClock, KeyDown ''Space''] fresh = jumpPressedD"
  by (simp add: jumpPressedD_def landedD_def)

lemma airborneD_values:
  "\<not> onGround (player (updateD frozenClock jumpPressedD))"
  "y (player (updateD frozenClock jumpPressedD)) = 316.5"
  "height (player (updateD frozenClock jumpPressedD)) = 32"
  "groundY (game (updateD frozenClock jumpPressedD)) = 360"
  by (simp_all add: updateD_game updateD_player physicsD_vertical integratedD_vertical
      jumpPressedD_values held_def double_800)

section \<open>The claims\<close>

text \<open>
  Claim C1. Starting from a new manager (state \<open>MENU\<close>), after any sequence of calls
  that ends with \<open>setState n\<close>, \<open>getCurrentState\<close> returns \<open>n\<close>; and the heap when that
  call returns is the heap before the call with the registered callback, if there is
  one, applied to \<open>n\<close>: the callback has run inside the call.
\<close>

theorem setState_immediate:
  "getCurrentState (fst (calls (cs @ [SetState n]) (StateManager_new, w))) = n \<and>
   snd (calls (cs @ [SetState n]) (StateManager_new, w)) =
     (case onStateChange (fst (calls cs (StateManager_new, w))) of
        Some f \<Rightarrow> f n (snd (calls cs (StateManager_new, w)))
      | None \<Rightarrow> snd (calls cs (StateManager_new, w)))"
proof -
  obtain m v where mv: "calls cs (StateManager_new, w) = (m, v)"
    by (cases "calls cs (StateManager_new, w)")
  have "calls (cs @ [SetState n]) (StateManager_new, w) = setState n m v"
    by (simp add: calls_append mv)
  then show ?thesis
    by (simp add: mv setState_fst setState_snd getCurrentState_def split: option.split)
qed

text \<open>
  Claim C2, amended. On binary64 numbers, in every state reached from the
  constructor's state by key events, resizes and ticks, one more \<open>update\<close> gives a
  state where: when \<open>onGround\<close> is set, \<open>y\<close> is \<open>groundY - height\<close> as the code computes
  it; when \<open>onGround\<close> is not set, \<open>y + height < groundY\<close> as the code computes the sum.
\<close>

theorem updateD_ground:
  assumes "GameplayStateD_new c m w = Inr s0"
  shows "(onGround (player (updateD clock (runD es s0))) \<longrightarrow>
      y (player (updateD clock (runD es s0))) =
        double (groundY (game (updateD clock (runD es s0))) -
                height (player (updateD clock (runD es s0))))) \<and>
    (\<not> onGround (player (updateD clock (runD es s0))) \<longrightarrow>
      double (y (player (updateD clock (runD es s0))) +
              height (player (updateD clock (runD es s0))))
        < groundY (game (updateD clock (runD es s0))))"
proof -
  define s where "s = runD es s0"
  have r: "restingD (game s) (player s)"
    unfolding s_def by (rule runD_resting [OF newD_resting [OF assms]])
  then have "restingD (game s) (physicsD (game s) (player s))"
    by (rule physicsD_resting)
  then have a: "onGround (player (updateD clock s)) \<longrightarrow>
      y (player (updateD clock s)) =
        double (groundY (game (updateD clock s)) - height (player (updateD clock s)))"
    by (simp add: restingD_def updateD_game updateD_player physicsD_vertical(1))
  have b: "\<not> onGround (player (updateD clock s)) \<longrightarrow>
      double (y (player (updateD clock s)) + height (player (updateD clock s)))
        < groundY (game (updateD clock s))"
    by (simp add: updateD_game updateD_player physicsD_vertical)
  from a b show ?thesis unfolding s_def by (rule conjI)
qed

text \<open>
  The theorem at \<open>fresh821\<close>, where the tick lands the player, and at the run from
  \<open>fresh\<close> in which the player lands, the jump key goes down and the next tick takes
  the player off the ground.
\<close>

theorem updateD_ground_witness:
  "GameplayStateD_new canvas821 StateManager_new () = Inr fresh821 \<and>
   onGround (player (updateD frozenClock (runD [] fresh821))) \<and>
   y (player (updateD frozenClock (runD [] fresh821))) =
     double (groundY (game (updateD frozenClock (runD [] fresh821))) -
             height (player (updateD frozenClock (runD [] fresh821)))) \<and>
   GameplayStateD_new demoCanvas StateManager_new () = Inr fresh \<and>
   \<not> onGround (player (updateD frozenClock (runD [Tick frozenClock, KeyDown ''Space''] fresh))) \<and>
   double (y (player (updateD frozenClock (runD [Tick frozenClock, KeyDown ''Space''] fresh))) +
           height (player (updateD frozenClock (runD [Tick frozenClock, KeyDown ''Space''] fresh))))
     < groundY (game (updateD frozenClock (runD [Tick frozenClock, KeyDown ''Space''] fresh)))"
proof -
  have a: "onGround (player (updateD frozenClock (runD [] fresh821)))"
    by (simp add: landed821_def [symmetric] landed821_values)
  have b: "\<not> onGround (player (updateD frozenClock (runD [Tick frozenClock, KeyDown ''Space''] fresh)))"
    unfolding jumpPressedD_reached by (rule airborneD_values(1))
  note t1 = updateD_ground [OF new821, of frozenClock "[]", THEN conjunct1, THEN mp, OF a]
  note t2 = updateD_ground [OF freshD_new, of frozenClock "[Tick frozenClock, KeyDown ''Space'']",
      THEN conjunct2, THEN mp, OF b]
  show ?thesis
    by (intro conjI new821 a t1 freshD_new b t2)
qed

text \<open>
  Claim C2 as stated fails on binary64 numbers at \<open>fresh821\<close>, the constructor's state
  on a parent 821 wide: after the first tick \<open>onGround\<close> is set and \<open>y + height\<close> is
  greater than \<open>groundY\<close>, both as a real sum of the two fields and as the sum the code
  computes (368.95000000000005 against 368.95).
\<close>

theorem updateD_ground_counterexample:
  "GameplayStateD_new canvas821 StateManager_new () = Inr fresh821 \<and>
   onGround (player (updateD frozenClock fresh821)) \<and>
   groundY (game (updateD frozenClock fresh821))
     < y (player (updateD frozenClock fresh821)) + height (player (updateD frozenClock fresh821)) \<and>
   groundY (game (updateD frozenClock fresh821))
     < double (y (player (updateD frozenClock fresh821)) +
               height (player (updateD frozenClock fresh821)))"
  by (simp add: new821 landed821_def [symmetric] landed821_values double_821)




text \<open>
  Claim C4, amended. On binary64 numbers, for every state: if \<open>y + height \<ge> groundY\<close>
  after the integration step (the sum as the code computes it), then after the tick
  \<open>y\<close> is \<open>groundY - height\<close> as the code computes it, \<open>velocityY = 0\<close> and \<open>onGround\<close> is
  set. Otherwise \<open>y\<close> and \<open>velocityY\<close> keep their integrated values and \<open>onGround\<close> keeps
  the value the jump step left: it is set exactly when it was set before the tick and
  the jump key is not held.
\<close>

theorem groundCollisionD_tick:
  "(groundY (game s)
      \<le> double (y (integratedD (game s) (player s)) + height (integratedD (game s) (player s))) \<longrightarrow>
      y (player (updateD clock s)) = double (groundY (game s) - height (player s)) \<and>
      velocityY (player (updateD clock s)) = 0 \<and>
      onGround (player (updateD clock s))) \<and>
   (double (y (integratedD (game s) (player s)) + height (integratedD (game s) (player s)))
      < groundY (game s) \<longrightarrow>
      y (player (updateD clock s)) = y (integratedD (game s) (player s)) \<and>
      velocityY (player (updateD clock s)) = velocityY (integratedD (game s) (player s)) \<and>
      onGround (player (updateD clock s)) =
        (onGround (player s) \<and> \<not> held (keys (game s)) ''Space''))"
  by (simp add: updateD_player physicsD_vertical integratedD_vertical(1,2))

text \<open>
  The theorem at \<open>fresh804\<close> (the player lands) and at \<open>jumpPressedD\<close> (the player
  leaves the ground).
\<close>

theorem groundCollisionD_tick_witness:
  "groundY (game fresh804)
     \<le> double (y (integratedD (game fresh804) (player fresh804)) +
               height (integratedD (game fresh804) (player fresh804))) \<and>
   onGround (player (updateD frozenClock fresh804)) \<and>
   double (y (integratedD (game jumpPressedD) (player jumpPressedD)) +
           height (integratedD (game jumpPressedD) (player jumpPressedD)))
     < groundY (game jumpPressedD) \<and>
   \<not> onGround (player (updateD frozenClock jumpPressedD))"
proof -
  have a: "groundY (game fresh804)
     \<le> double (y (integratedD (game fresh804) (player fresh804)) +
               height (integratedD (game fresh804) (player fresh804)))"
    by (simp add: integratedD_vertical fresh804_values held_def double_804)
  have b: "double (y (integratedD (game jumpPressedD) (player jumpPressedD)) +
           height (integratedD (game jumpPressedD) (player jumpPressedD)))
     < groundY (game jumpPressedD)"
    by (simp add: integratedD_vertical jumpPressedD_values held_def double_800)
  have c: "held (keys (game jumpPressedD)) ''Space''"
    by (simp add: jumpPressedD_values held_def)
  from a groundCollisionD_tick [of fresh804 frozenClock]
  have d: "onGround (player (updateD frozenClock fresh804))" by blast
  from b c groundCollisionD_tick [of jumpPressedD frozenClock]
  have e: "\<not> onGround (player (updateD frozenClock jumpPressedD))" by blast
  show ?thesis by (intro conjI a d b e)
qed

text \<open>
  Claim C4 as stated fails on binary64 numbers on a parent 804 wide. In the tick from
  \<open>fresh804\<close> the collision applies, and afterwards \<open>y + height\<close> as the code computes
  it is not \<open>groundY\<close> (361.79999999999995 against 361.8). In the next tick, from
  \<open>landed804\<close>, the player is above the ground after the integration step, and
  \<open>onGround\<close> is still set after the tick.
\<close>

theorem groundCollisionD_tick_counterexample:
  "GameplayStateD_new canvas804 StateManager_new () = Inr fresh804 \<and>
   groundY (game fresh804)
     \<le> double (y (integratedD (game fresh804) (player fresh804)) +
               height (integratedD (game fresh804) (player fresh804))) \<and>
   double (y (player (updateD frozenClock fresh804)) + height (player (updateD frozenClock fresh804)))
     \<noteq> groundY (game (updateD frozenClock fresh804)) \<and>
   landed804 = updateD frozenClock fresh804 \<and>
   double (y (integratedD (game landed804) (player landed804)) +
           height (integratedD (game landed804) (player landed804)))
     < groundY (game landed804) \<and>
   onGround (player (updateD frozenClock landed804))"
proof -
  have a: "groundY (game fresh804)
     \<le> double (y (integratedD (game fresh804) (player fresh804)) +
               height (integratedD (game fresh804) (player fresh804)))"
    by (simp add: integratedD_vertical fresh804_values held_def double_804)
  have b: "double (y (player (updateD frozenClock fresh804)) + height (player (updateD frozenClock fresh804)))
     \<noteq> groundY (game (updateD frozenClock fresh804))"
    by (simp add: landed804_def [symmetric] landed804_values double_804)
  have c: "double (y (integratedD (game landed804) (player landed804)) +
           height (integratedD (game landed804) (player landed804)))
     < groundY (game landed804)"
    by (simp add: integratedD_vertical landed804_values held_def double_804)
  have d: "onGround (player (updateD frozenClock landed804))"
    using c by (simp add: updateD_player physicsD_vertical integratedD_vertical
        landed804_values held_def)
  show ?thesis by (intro conjI new804 a b landed804_def c d)
qed






text \<open>
  Claim C7. From any state with \<open>groundY = 360\<close>, \<open>height = 32\<close>, \<open>y = 100\<close>,
  \<open>velocityY = 0\<close>, \<open>onGround\<close> false and \<open>gravity = 0.5\<close>, whatever the keys, the loop
  that calls \<open>update\<close> until \<open>onGround\<close> is set ends after 30 calls, with the player
  at \<open>y = 328\<close>; and 30 is the least \<open>n\<close> with
  \<open>100 + 0.5*1 + ... + 0.5*n \<ge> 360 - 32\<close>.
\<close>

theorem fall_lands:
  assumes "groundY (game s) = 360" "height (player s) = 32" "y (player s) = 100"
    "velocityY (player s) = 0" "\<not> onGround (player s)" "gravity (game s) = 0.5"
  shows "ticksUntilGround clock 0 s = Some (30, (update clock ^^ 30) s) \<and>
    onGround (player ((update clock ^^ 30) s)) \<and>
    y (player ((update clock ^^ 30) s)) = 328 \<and>
    (LEAST n. 360 - 32 \<le> spec_fall_y n) = 30"
proof -
  from assms(6) have g: "gravity (game s) = 1 / 2" by simp
  note steps = falling_steps [OF assms(1) g assms(2,5,4,3)]
  let ?t = "(update clock ^^ 29) s"
  from steps [of 29 clock]
  have t: "game ?t = game s" "height (player ?t) = 32" "\<not> onGround (player ?t)"
    "velocityY (player ?t) = real 29 / 2" "y (player ?t) = 100 + real 29 * (real 29 + 1) / 4"
    by simp_all
  have u: "(update clock ^^ 30) s = update clock ?t"
    by (simp add: numeral_eq_Suc)
  note f = falling_tick [OF assms(1) g t(2,3,4,5)]
  have land: "onGround (player ((update clock ^^ 30) s))" "y (player ((update clock ^^ 30) s)) = 328"
    using f t(1) by (simp_all add: u update_player)
  have air: "\<not> onGround (player ((update clock ^^ j) s))" if "j < 30" for j
    using steps [of j clock] that by simp
  have "ticksUntilGround clock 0 s = ticksUntilGround clock (0 + 30) ((update clock ^^ 30) s)"
    using air by (rule ticksUntilGround_skip)
  also have "\<dots> = Some (30, (update clock ^^ 30) s)"
    using land(1) by (subst ticksUntilGround.simps) simp
  finally show ?thesis using land spec_fall_least by simp
qed

text \<open>
  The theorem at \<open>dropStart\<close>.
\<close>

theorem fall_lands_witness:
  "groundY (game dropStart) = 360 \<and> height (player dropStart) = 32 \<and> y (player dropStart) = 100 \<and>
   velocityY (player dropStart) = 0 \<and> \<not> onGround (player dropStart) \<and>
   gravity (game dropStart) = 0.5 \<and>
   ticksUntilGround frozenClock 0 dropStart = Some (30, (update frozenClock ^^ 30) dropStart) \<and>
   y (player ((update frozenClock ^^ 30) dropStart)) = 328"
proof -
  have a: "groundY (game dropStart) = 360" "height (player dropStart) = 32"
    "y (player dropStart) = 100" "velocityY (player dropStart) = 0"
    "\<not> onGround (player dropStart)" "gravity (game dropStart) = 0.5"
    by (simp_all add: dropStart_def fresh_def)
  from fall_lands [OF a, of frozenClock] a show ?thesis by blast
qed

text \<open>
  Claim C8. When the current state is \<open>GAMEPLAY\<close> and the Escape key is held, then
  after an \<open>update\<close> tick \<open>getCurrentState\<close> returns \<open>PAUSE\<close>, and the observer, if
  one is registered, has been called with \<open>PAUSE\<close>.
\<close>

theorem escape_pauses:
  assumes "getCurrentState (stateManager s) = GAMEPLAY" "held (keys (game s)) ''Escape''"
  shows "getCurrentState (stateManager (update clock s)) = PAUSE \<and>
    heap (update clock s) =
      (case onStateChange (stateManager s) of Some f \<Rightarrow> f PAUSE (heap s) | None \<Rightarrow> heap s)"
  using assms(2) by (simp add: update_stateManager update_heap getCurrentState_def)

text \<open>
  The theorem at \<open>escapePressed\<close>.
\<close>

theorem escape_pauses_witness:
  "getCurrentState (stateManager escapePressed) = GAMEPLAY \<and>
   held (keys (game escapePressed)) ''Escape'' \<and>
   getCurrentState (stateManager (update frozenClock escapePressed)) = PAUSE"
proof -
  have a: "getCurrentState (stateManager escapePressed) = GAMEPLAY"
    by (simp add: escapePressed_def playing_def keydown_def getCurrentState_def)
  have b: "held (keys (game escapePressed)) ''Escape''"
    by (simp add: escapePressed_def keydown_def held_def)
  from escape_pauses [OF a b, of frozenClock] a b show ?thesis by blast
qed

text \<open>
  Claim C9. The observer is a single slot. Registering \<open>f\<close> and then \<open>g\<close> leaves the
  manager in the same state as registering \<open>g\<close> alone; a following \<open>setState n\<close> applies
  \<open>g\<close> to \<open>n\<close> and nothing else to the heap; and every later sequence of calls has the
  same result as if \<open>f\<close> had never been registered.
\<close>

theorem onStateChanged_replaces:
  "onStateChanged g (onStateChanged f m) = onStateChanged g m \<and>
   setState n (onStateChanged g (onStateChanged f m)) w =
     ((onStateChanged g m)\<lparr>currentState := n\<rparr>, g n w) \<and>
   calls cs (onStateChanged g (onStateChanged f m), w) = calls cs (onStateChanged g m, w)"
  by (simp add: onStateChanged_def setState_def)




end
